theory Spec2Isabelle
  imports Main "HOL-Library.Sublist"
begin

section \<open>Data model\<close>

text \<open>
  A story record as the search API returns it and as \<open>Item\<close> renders it:
  \<open>objectID\<close>, \<open>title\<close>, \<open>url\<close>, \<open>author\<close>, \<open>num_comments\<close>, \<open>points\<close>.
  The field \<open>url\<close> is called \<open>story_url\<close> here, since the application state has a
  field \<open>url\<close> of its own.
\<close>

record story =
  objectID :: string
  title :: string
  story_url :: string
  author :: string
  num_comments :: int
  points :: int

text \<open>
  JavaScript is untyped: \<open>action.payload\<close> is omitted (\<open>undefined\<close>) in
  \<open>{type: 'STORIES_FETCH_INIT'}\<close>, an array of stories in \<open>STORIES_FETCH_SUCCESS\<close>
  and a single story in \<open>REMOVE_STORY\<close>, and \<open>data: action.payload\<close> stores whatever
  it is given. The values that flow through \<open>payload\<close> and \<open>data\<close> are therefore one type.
\<close>

datatype jsvalue = Undefined | Array "story list" | Object story

text \<open>
  What the reducer can throw: \<open>throw new Error()\<close> of the \<open>default\<close> branch, and the
  \<open>TypeError\<close> the runtime raises when a property of \<open>undefined\<close> is read or a
  missing method is called.
\<close>

datatype error = Error | TypeError

record action =
  type :: string
  payload :: jsvalue

record stories_state =
  data :: jsvalue
  isLoading :: bool
  isError :: bool

section \<open>The stories reducer\<close>

text \<open>\<open>action.payload.objectID\<close>: reading a property of \<open>undefined\<close> throws; an array has
  no property \<open>objectID\<close>, so the read gives \<open>undefined\<close> (\<open>None\<close>).\<close>

fun get_objectID :: "jsvalue \<Rightarrow> error + string option" where
  "get_objectID Undefined = Inl TypeError"
| "get_objectID (Array xs) = Inr None"
| "get_objectID (Object s) = Inr (Some (objectID s))"

text \<open>\<open>Array.prototype.filter\<close> with a callback that may throw: the elements are visited
  from the left, and the first exception leaves the loop.\<close>

fun array_filter :: "('a \<Rightarrow> error + bool) \<Rightarrow> 'a list \<Rightarrow> error + 'a list" where
  "array_filter p [] = Inr []"
| "array_filter p (x # xs) =
     (case p x of
        Inl e \<Rightarrow> Inl e
      | Inr b \<Rightarrow>
          (case array_filter p xs of
             Inl e \<Rightarrow> Inl e
           | Inr ys \<Rightarrow> Inr (if b then x # ys else ys)))"

text \<open>The callback \<open>(story) => action.payload.objectID !== story.objectID\<close>.\<close>

definition keep_story :: "action \<Rightarrow> story \<Rightarrow> error + bool" where
  "keep_story action story =
     (case get_objectID (payload action) of
        Inl e \<Rightarrow> Inl e
      | Inr i \<Rightarrow> Inr (i \<noteq> Some (objectID story)))"

text \<open>\<open>state.data.filter(...)\<close>: only an array has the method \<open>filter\<close>.\<close>

fun data_filter :: "(story \<Rightarrow> error + bool) \<Rightarrow> jsvalue \<Rightarrow> error + jsvalue" where
  "data_filter p (Array xs) =
     (case array_filter p xs of Inl e \<Rightarrow> Inl e | Inr ys \<Rightarrow> Inr (Array ys))"
| "data_filter p Undefined = Inl TypeError"
| "data_filter p (Object s) = Inl TypeError"

definition storiesReducer :: "stories_state \<Rightarrow> action \<Rightarrow> error + stories_state" where
  "storiesReducer state action =
     (if type action = ''STORIES_FETCH_INIT'' then
        Inr (state\<lparr>isLoading := True, isError := False\<rparr>)
      else if type action = ''STORIES_FETCH_SUCCESS'' then
        Inr (state\<lparr>isLoading := False, isError := False, data := payload action\<rparr>)
      else if type action = ''STORIES_FETCH_FAILURE'' then
        Inr (state\<lparr>isLoading := False, isError := True\<rparr>)
      else if type action = ''REMOVE_STORY'' then
        (case data_filter (keep_story action) (data state) of
           Inl e \<Rightarrow> Inl e
         | Inr d \<Rightarrow> Inr (state\<lparr>data := d\<rparr>))
      else Inl Error)"

text \<open>The initial state handed to \<open>React.useReducer\<close>:
  \<open>{ data: [], isLoading: false, isError: false }\<close>.\<close>

definition initialStories :: stories_state where
  "initialStories = \<lparr>data = Array [], isLoading = False, isError = False\<rparr>"

text \<open>
  The four actions as the application dispatches them: \<open>{type: 'STORIES_FETCH_INIT'}\<close>,
  \<open>{type: 'STORIES_FETCH_SUCCESS', payload: result.data.hits}\<close>,
  \<open>{type: 'STORIES_FETCH_FAILURE'}\<close> and \<open>{type: 'REMOVE_STORY', payload: item}\<close>.
\<close>

datatype kind =
  FETCH_INIT
| FETCH_SUCCESS "story list"
| FETCH_FAILURE
| REMOVE_ITEM story

fun action_of :: "kind \<Rightarrow> action" where
  "action_of FETCH_INIT = \<lparr>type = ''STORIES_FETCH_INIT'', payload = Undefined\<rparr>"
| "action_of (FETCH_SUCCESS hits) = \<lparr>type = ''STORIES_FETCH_SUCCESS'', payload = Array hits\<rparr>"
| "action_of FETCH_FAILURE = \<lparr>type = ''STORIES_FETCH_FAILURE'', payload = Undefined\<rparr>"
| "action_of (REMOVE_ITEM item) = \<lparr>type = ''REMOVE_STORY'', payload = Object item\<rparr>"

text \<open>A sequence of dispatches; an exception thrown by the reducer ends the run.\<close>

fun dispatchAll :: "stories_state \<Rightarrow> action list \<Rightarrow> error + stories_state" where
  "dispatchAll state [] = Inr state"
| "dispatchAll state (a # as) =
     (case storiesReducer state a of
        Inl e \<Rightarrow> Inl e
      | Inr state' \<Rightarrow> dispatchAll state' as)"

section \<open>The fetch handler\<close>

text \<open>
  \<open>axios.get(url)\<close> either rejects or resolves with a result. Of the result only
  \<open>result.data.hits\<close> is read: \<open>None\<close> stands for a result whose \<open>data\<close> is \<open>null\<close> or
  \<open>undefined\<close> (reading \<open>hits\<close> then throws inside the \<open>try\<close> block), \<open>Some h\<close> for a
  \<open>data\<close> object whose property \<open>hits\<close> is \<open>h\<close> (\<open>Undefined\<close> when it has none).
\<close>

datatype axios_result = Result "jsvalue option"

datatype outcome = Resolved axios_result | Rejected

text \<open>What the handler does to the outside, in order: dispatches and the GET request.\<close>

datatype effect = Dispatch action | Get string

text \<open>The part of \<open>handleFetchStories\<close> before \<open>await\<close> suspends it. The handler is
  called from an effect, where React only queues the update of the first dispatch.\<close>

definition handleFetchStories_begin :: "string \<Rightarrow> effect list" where
  "handleFetchStories_begin url =
     [Dispatch \<lparr>type = ''STORIES_FETCH_INIT'', payload = Undefined\<rparr>, Get url]"

text \<open>
  What \<open>App\<close> renders of the stories: \<open>Loading ...\<close> while \<open>isLoading\<close>, and
  otherwise \<open>List\<close>, which calls \<open>list.map\<close> on \<open>stories.data\<close>. Only an array has
  the method \<open>map\<close>; on anything else the render throws.
\<close>

fun isArray :: "jsvalue \<Rightarrow> bool" where
  "isArray (Array xs) = True"
| "isArray Undefined = False"
| "isArray (Object s) = False"

definition List_render :: "jsvalue \<Rightarrow> error + unit" where
  "List_render list = (if isArray list then Inr () else Inl TypeError)"

definition App_render :: "stories_state \<Rightarrow> error + unit" where
  "App_render stories = (if isLoading stories then Inr () else List_render (data stories))"

text \<open>
  The source does not say in which kind of React root \<open>App\<close> is mounted, and the
  call \<open>dispatchStories(action)\<close> that \<open>handleFetchStories\<close> makes after \<open>await\<close>,
  outside every React event handler, depends on it. In a legacy root
  (\<open>ReactDOM.render\<close>) the update is carried out before the call returns: the reducer
  runs, \<open>App\<close> renders again, and an exception of either is thrown from the call. In
  a concurrent root (\<open>createRoot\<close>) the update is queued and the call returns.
\<close>

datatype react_root = Legacy | Concurrent

definition dispatchStories :: "react_root \<Rightarrow> stories_state \<Rightarrow> action \<Rightarrow> error + unit" where
  "dispatchStories r state action =
     (case r of
        Concurrent \<Rightarrow> Inr ()
      | Legacy \<Rightarrow>
          (case storiesReducer state action of
             Inl e \<Rightarrow> Inl e
           | Inr state' \<Rightarrow> App_render state'))"

text \<open>
  The part after the request has settled, in the root \<open>r\<close> and with the stories state
  \<open>state\<close> of that moment: the rest of the \<open>try\<close> block, or \<open>catch\<close>. The \<open>try\<close>
  block holds the call \<open>dispatchStories({type: 'STORIES_FETCH_SUCCESS', ...})\<close> too,
  so when that call throws, \<open>catch\<close> dispatches \<open>STORIES_FETCH_FAILURE\<close> after it.
  The dispatch in \<open>catch\<close> is the handler's last statement: whether it throws makes
  no difference to what has been dispatched.
\<close>

fun handleFetchStories_settle :: "react_root \<Rightarrow> stories_state \<Rightarrow> outcome \<Rightarrow> effect list" where
  "handleFetchStories_settle r state (Resolved (Result (Some h))) =
     (case dispatchStories r state \<lparr>type = ''STORIES_FETCH_SUCCESS'', payload = h\<rparr> of
        Inr u \<Rightarrow> [Dispatch \<lparr>type = ''STORIES_FETCH_SUCCESS'', payload = h\<rparr>]
      | Inl e \<Rightarrow>
          [Dispatch \<lparr>type = ''STORIES_FETCH_SUCCESS'', payload = h\<rparr>,
           Dispatch \<lparr>type = ''STORIES_FETCH_FAILURE'', payload = Undefined\<rparr>])"
| "handleFetchStories_settle r state (Resolved (Result None)) =
     [Dispatch \<lparr>type = ''STORIES_FETCH_FAILURE'', payload = Undefined\<rparr>]"
| "handleFetchStories_settle r state Rejected =
     [Dispatch \<lparr>type = ''STORIES_FETCH_FAILURE'', payload = Undefined\<rparr>]"


section \<open>Persisted input\<close>

text \<open>\<open>localStorage\<close>: string keys, string values; \<open>getItem\<close> of a missing key is \<open>null\<close>.\<close>

type_synonym storage = "string \<rightharpoonup> string"

definition getItem :: "storage \<Rightarrow> string \<Rightarrow> string option" where
  "getItem store key = store key"

definition setItem :: "storage \<Rightarrow> string \<Rightarrow> string \<Rightarrow> storage" where
  "setItem store key v = store(key \<mapsto> v)"

text \<open>A string is falsy exactly when it is empty; \<open>null\<close> is falsy.\<close>

definition truthy :: "string \<Rightarrow> bool" where
  "truthy s = (s \<noteq> [])"

text \<open>\<open>a || b\<close> for \<open>a\<close> a string or \<open>null\<close>.\<close>

definition js_or :: "string option \<Rightarrow> string \<Rightarrow> string" where
  "js_or a b = (case a of None \<Rightarrow> b | Some s \<Rightarrow> if truthy s then s else b)"

text \<open>\<open>React.useState(initial)\<close>: the argument counts on the first render only, when the
  hook has no stored value yet (\<open>None\<close>); later renders return the stored value.\<close>

definition useState :: "'a option \<Rightarrow> 'a \<Rightarrow> 'a" where
  "useState cell initial = (case cell of None \<Rightarrow> initial | Some v \<Rightarrow> v)"

text \<open>
  One render of \<open>useSemiPersistentState\<close> together with its effect, for the renders in
  which the effect runs: the first one, and one after \<open>setValue\<close> has stored a different
  value (the dependencies \<open>[value, key]\<close> changed). The result is the value returned
  and the storage after \<open>localStorage.setItem(key, value)\<close>.
\<close>

definition useSemiPersistentState ::
  "string option \<Rightarrow> storage \<Rightarrow> string \<Rightarrow> string \<Rightarrow> string \<times> storage" where
  "useSemiPersistentState cell store key initialState =
     (let v = useState cell (js_or (getItem store key) initialState)
      in (v, setItem store key v))"

section \<open>The application\<close>

definition API_ENDPOINT :: string where
  "API_ENDPOINT = ''https://hn.algolia.com/api/v1/search?query=''"

text \<open>
  The state of \<open>App\<close>: the kind of root it is mounted in, the three pieces of React
  state (\<open>searchTerm\<close>, \<open>url\<close>, \<open>stories\<close>) and the two things outside it that the
  component touches, the browser storage and the network. \<open>requests\<close> is the log of
  the GET requests issued so far.
\<close>

record app =
  root :: react_root
  searchTerm :: string
  url :: string
  stories :: stories_state
  localStorage :: storage
  requests :: "string list"

text \<open>
  Carrying out the handler's effects on the application: a dispatch runs the reducer
  on the current stories state and \<open>App\<close> renders the new one, \<open>axios.get\<close> sends a
  request. No error boundary surrounds \<open>App\<close>, so an exception of the reducer or of
  the render takes the whole tree down, in either kind of root: the result is the
  error, and nothing that is dispatched afterwards has a state to act on.
\<close>

fun perform :: "effect \<Rightarrow> app \<Rightarrow> error + app" where
  "perform (Dispatch a) app =
     (case storiesReducer (stories app) a of
        Inl e \<Rightarrow> Inl e
      | Inr s \<Rightarrow>
          (case App_render s of
             Inl e \<Rightarrow> Inl e
           | Inr u \<Rightarrow> Inr (app\<lparr>stories := s\<rparr>)))"
| "perform (Get u) app = Inr (app\<lparr>requests := requests app @ [u]\<rparr>)"

fun performAll :: "effect list \<Rightarrow> app \<Rightarrow> error + app" where
  "performAll [] app = Inr app"
| "performAll (e # es) app =
     (case perform e app of
        Inl err \<Rightarrow> Inl err
      | Inr app' \<Rightarrow> performAll es app')"

text \<open>
  The first render of \<open>App\<close> and its effects: the search term comes from the hook, the
  URL from \<open>`${API_ENDPOINT}${searchTerm}`\<close>, the stories from the reducer's initial
  state, and the effect on \<open>handleFetchStories\<close> starts the first fetch.
\<close>

definition App_mount :: "react_root \<Rightarrow> storage \<Rightarrow> error + app" where
  "App_mount r store =
     (let (term, store') = useSemiPersistentState None store ''search'' ''React'';
          u = useState None (API_ENDPOINT @ term)
      in performAll (handleFetchStories_begin u)
           \<lparr>root = r, searchTerm = term, url = u, stories = initialStories,
            localStorage = store', requests = []\<rparr>)"

text \<open>
  \<open>handleSearchInput\<close> calls \<open>setSearchTerm(event.target.value)\<close>. React renders again
  only when the value differs from the stored one; that render runs the hook, whose
  effect writes the new value to storage. Nothing else depends on the search term.
\<close>

definition handleSearchInput :: "string \<Rightarrow> app \<Rightarrow> app" where
  "handleSearchInput v app =
     (if v = searchTerm app then app
      else
        (let (term, store') =
               useSemiPersistentState (Some v) (localStorage app) ''search'' ''React''
         in app\<lparr>searchTerm := term, localStorage := store'\<rparr>))"

text \<open>
  \<open>handleSearchSubmit\<close> calls \<open>setUrl(`${API_ENDPOINT}${searchTerm}`)\<close>. When the URL
  differs from the stored one, \<open>handleFetchStories\<close> is a new function (it is memoized
  on \<open>url\<close>) and the effect on it starts a fetch of the new URL.
\<close>

definition handleSearchSubmit :: "app \<Rightarrow> error + app" where
  "handleSearchSubmit app =
     (let u = API_ENDPOINT @ searchTerm app
      in if u = url app then Inr app
         else performAll (handleFetchStories_begin u) (app\<lparr>url := u\<rparr>))"

definition handleRemoveStory :: "story \<Rightarrow> app \<Rightarrow> error + app" where
  "handleRemoveStory item app =
     perform (Dispatch \<lparr>type = ''REMOVE_STORY'', payload = Object item\<rparr>) app"

text \<open>The request of a running \<open>handleFetchStories\<close> settles and the handler resumes.\<close>

definition fetchSettled :: "outcome \<Rightarrow> app \<Rightarrow> error + app" where
  "fetchSettled out app =
     performAll (handleFetchStories_settle (root app) (stories app) out) app"

text \<open>The attribute \<open>disabled={!searchTerm}\<close> of the submit button in \<open>SearchForm\<close>.\<close>

definition SearchForm_disabled :: "string \<Rightarrow> bool" where
  "SearchForm_disabled term = (\<not> truthy term)"

text \<open>
  Submitting the form through the page, by the button or by the Enter key in the
  input: the browser does not submit a form whose submit button is disabled, so
  \<open>onSubmit\<close> is called only when the button is enabled.
\<close>

definition formSubmit :: "app \<Rightarrow> error + app" where
  "formSubmit app =
     (if SearchForm_disabled (searchTerm app) then Inr app else handleSearchSubmit app)"

text \<open>Everything that can happen to the mounted application.\<close>

datatype event =
  SearchInput string
| SearchSubmit
| RemoveItem story
| FetchSettled outcome

fun step :: "event \<Rightarrow> app \<Rightarrow> error + app" where
  "step (SearchInput v) app = Inr (handleSearchInput v app)"
| "step SearchSubmit app = formSubmit app"
| "step (RemoveItem item) app = handleRemoveStory item app"
| "step (FetchSettled out) app = fetchSettled out app"

section \<open>Sample data\<close>

definition story1 :: story where
  "story1 = \<lparr>objectID = ''1'', title = ''React'', story_url = ''https://reactjs.org/'',
             author = ''Jordan Walke'', num_comments = 3, points = 4\<rparr>"

definition story2 :: story where
  "story2 = \<lparr>objectID = ''2'', title = ''Redux'', story_url = ''https://redux.js.org/'',
             author = ''Dan Abramov'', num_comments = 2, points = 5\<rparr>"

definition story3 :: story where
  "story3 = \<lparr>objectID = ''3'', title = ''Rust'', story_url = ''https://www.rust-lang.org/'',
             author = ''Graydon Hoare'', num_comments = 7, points = 9\<rparr>"

text \<open>The application after a first fetch of the default term has succeeded.\<close>

definition app0 :: app where
  "app0 = \<lparr>root = Legacy, searchTerm = ''React'', url = API_ENDPOINT @ ''React'',
           stories = \<lparr>data = Array [story1, story2], isLoading = False, isError = False\<rparr>,
           localStorage = [''search'' \<mapsto> ''React''], requests = [API_ENDPOINT @ ''React'']\<rparr>"

section \<open>Properties of the reducer\<close>

text \<open>A callback that never throws makes \<open>array_filter\<close> the ordinary \<open>filter\<close>.\<close>

lemma array_filter_total:
  "(\<And>x. p x = Inr (q x)) \<Longrightarrow> array_filter p xs = Inr (filter q xs)"
  by (induction xs) simp_all

lemma keep_story_Object:
  "keep_story \<lparr>type = t, payload = Object item\<rparr> story = Inr (objectID item \<noteq> objectID story)"
  by (simp add: keep_story_def)

lemma remove_story_Array:
  assumes "data state = Array xs"
  shows "storiesReducer state \<lparr>type = ''REMOVE_STORY'', payload = Object item\<rparr> =
         Inr (state\<lparr>data := Array (filter (\<lambda>story. objectID item \<noteq> objectID story) xs)\<rparr>)"
proof -
  have "array_filter (keep_story \<lparr>type = ''REMOVE_STORY'', payload = Object item\<rparr>) xs =
        Inr (filter (\<lambda>story. objectID item \<noteq> objectID story) xs)"
    by (rule array_filter_total) (rule keep_story_Object)
  with assms show ?thesis
    by (simp add: storiesReducer_def)
qed

text \<open>Where the keys are distinct, filtering out a key that occurs drops one element.\<close>

lemma length_filter_distinct_key:
  "distinct (map f xs) \<Longrightarrow> a \<in> f ` set xs \<Longrightarrow>
   Suc (length (filter (\<lambda>x. a \<noteq> f x) xs)) = length xs"
proof (induction xs)
  case Nil
  then show ?case by simp
next
  case (Cons x xs)
  show ?case
  proof (cases "a = f x")
    case True
    with Cons.prems have "a \<notin> f ` set xs" by simp
    then have "filter (\<lambda>y. a \<noteq> f y) xs = xs"
      by (auto simp: filter_id_conv)
    with True show ?thesis by simp
  next
    case False
    with Cons show ?thesis by auto
  qed
qed

text \<open>
  One dispatch of one of the four actions, from a state whose \<open>data\<close> is an array and
  whose flags are not both set, returns such a state again.
\<close>

lemma reducer_step_invariant:
  assumes "data s = Array xs" and "\<not> (isLoading s \<and> isError s)"
  shows "\<exists>s' ys. storiesReducer s (action_of k) = Inr s' \<and> data s' = Array ys
           \<and> \<not> (isLoading s' \<and> isError s')"
proof (cases k)
  case (REMOVE_ITEM item)
  with assms show ?thesis by (simp add: remove_story_Array [OF assms(1)])
qed (use assms in \<open>simp_all add: storiesReducer_def\<close>)

lemma dispatchAll_invariant:
  "data s = Array xs \<Longrightarrow> \<not> (isLoading s \<and> isError s) \<Longrightarrow>
   \<exists>s' ys. dispatchAll s (map action_of ks) = Inr s' \<and> data s' = Array ys
     \<and> \<not> (isLoading s' \<and> isError s')"
proof (induction ks arbitrary: s xs)
  case Nil
  then show ?case by simp
next
  case (Cons k ks)
  from reducer_step_invariant [OF Cons.prems, of k]
  obtain s1 ys where s1: "storiesReducer s (action_of k) = Inr s1"
    "data s1 = Array ys" "\<not> (isLoading s1 \<and> isError s1)"
    by blast
  from Cons.IH [OF s1(2) s1(3)] s1(1) show ?case by simp
qed

text \<open>When \<open>data\<close> is not an array, \<open>state.data.filter\<close> cannot be called.\<close>

lemma remove_story_not_Array:
  "data state = Undefined \<or> data state = Object s \<Longrightarrow>
   storiesReducer state \<lparr>type = ''REMOVE_STORY'', payload = p\<rparr> = Inl TypeError"
  by (auto simp: storiesReducer_def)

text \<open>Whatever the action is, a state the reducer returns has not both flags set,
  provided the state before had not.\<close>

lemma reducer_flags:
  "storiesReducer s a = Inr s' \<Longrightarrow> \<not> (isLoading s \<and> isError s) \<Longrightarrow>
   \<not> (isLoading s' \<and> isError s')"
  by (auto simp: storiesReducer_def split: if_splits sum.splits)

lemma dispatchAll_flags:
  "dispatchAll s as = Inr s' \<Longrightarrow> \<not> (isLoading s \<and> isError s) \<Longrightarrow>
   \<not> (isLoading s' \<and> isError s')"
proof (induction as arbitrary: s)
  case Nil
  then show ?case by simp
next
  case (Cons a as)
  then obtain s1 where s1: "storiesReducer s a = Inr s1" "dispatchAll s1 as = Inr s'"
    by (auto split: sum.splits)
  from reducer_flags [OF s1(1) Cons.prems(2)] Cons.IH [OF s1(2)] show ?case by blast
qed

text \<open>
  C1. Every sequence of the four actions, dispatched from the initial state
  \<open>{data: [], isLoading: false, isError: false}\<close>, is carried out without an exception,
  and in the state it ends in \<open>isLoading\<close> and \<open>isError\<close> are not both true. The
  sequence is arbitrary, so the same holds after each of its prefixes.
\<close>

theorem loading_error_exclusive:
  "\<exists>s. dispatchAll initialStories (map action_of ks) = Inr s \<and> \<not> (isLoading s \<and> isError s)"
proof -
  have "data initialStories = Array []" "\<not> (isLoading initialStories \<and> isError initialStories)"
    by (simp_all add: initialStories_def)
  from dispatchAll_invariant [OF this, of ks] show ?thesis by blast
qed

theorem loading_error_exclusive_witness:
  "\<exists>s. dispatchAll initialStories
          (map action_of [FETCH_INIT, FETCH_FAILURE, FETCH_INIT, FETCH_SUCCESS [story1, story2],
                          REMOVE_ITEM story1, FETCH_INIT]) = Inr s
       \<and> \<not> (isLoading s \<and> isError s)"
  using loading_error_exclusive
    [of "[FETCH_INIT, FETCH_FAILURE, FETCH_INIT, FETCH_SUCCESS [story1, story2],
          REMOVE_ITEM story1, FETCH_INIT]"]
  by simp

text \<open>
  C2. In a state whose \<open>data\<close> is the array \<open>xs\<close>, dispatching \<open>REMOVE_STORY\<close> with the
  payload \<open>item\<close> returns the state with \<open>data\<close> replaced by the array \<open>ys\<close> of the
  records of \<open>xs\<close> whose \<open>objectID\<close> differs from that of \<open>item\<close>: a record is in \<open>ys\<close>
  exactly when it is in \<open>xs\<close> and has another identifier, \<open>ys\<close> keeps the order of
  \<open>xs\<close>, and \<open>isLoading\<close> and \<open>isError\<close> are as before. Where the identifiers in \<open>xs\<close>
  are distinct and that of \<open>item\<close> is among them, exactly one record is gone.
\<close>

theorem remove_item_exact:
  assumes "data state = Array xs"
  shows "\<exists>ys. storiesReducer state \<lparr>type = ''REMOVE_STORY'', payload = Object item\<rparr>
               = Inr (state\<lparr>data := Array ys\<rparr>)
           \<and> isLoading (state\<lparr>data := Array ys\<rparr>) = isLoading state
           \<and> isError (state\<lparr>data := Array ys\<rparr>) = isError state
           \<and> ys = filter (\<lambda>story. objectID story \<noteq> objectID item) xs
           \<and> (\<forall>story. story \<in> set ys \<longleftrightarrow> story \<in> set xs \<and> objectID story \<noteq> objectID item)
           \<and> subseq ys xs
           \<and> (distinct (map objectID xs) \<longrightarrow> objectID item \<in> objectID ` set xs \<longrightarrow>
                Suc (length ys) = length xs)"
proof -
  let ?ys = "filter (\<lambda>story. objectID item \<noteq> objectID story) xs"
  have eq: "?ys = filter (\<lambda>story. objectID story \<noteq> objectID item) xs"
    by (rule filter_cong) auto
  have "storiesReducer state \<lparr>type = ''REMOVE_STORY'', payload = Object item\<rparr>
        = Inr (state\<lparr>data := Array ?ys\<rparr>)"
    by (rule remove_story_Array [OF assms])
  moreover have "\<forall>story. story \<in> set ?ys \<longleftrightarrow> story \<in> set xs \<and> objectID story \<noteq> objectID item"
    by auto
  moreover have "subseq ?ys xs"
    by simp
  moreover have "distinct (map objectID xs) \<longrightarrow> objectID item \<in> objectID ` set xs \<longrightarrow>
                 Suc (length ?ys) = length xs"
    by (simp add: length_filter_distinct_key)
  ultimately show ?thesis
    using eq by simp
qed

theorem remove_item_exact_witness:
  "storiesReducer \<lparr>data = Array [story1, story2, story3], isLoading = False, isError = True\<rparr>
     \<lparr>type = ''REMOVE_STORY'', payload = Object story2\<rparr>
   = Inr \<lparr>data = Array [story1, story3], isLoading = False, isError = True\<rparr>
   \<and> distinct (map objectID [story1, story2, story3])
   \<and> objectID story2 \<in> objectID ` set [story1, story2, story3]"
  using remove_item_exact
    [of "\<lparr>data = Array [story1, story2, story3], isLoading = False, isError = True\<rparr>"
        "[story1, story2, story3]" story2]
  by (simp add: story1_def story2_def story3_def)

text \<open>
  C3. From every state and for every payload, \<open>STORIES_FETCH_SUCCESS\<close> returns the state
  with \<open>isLoading = false\<close>, \<open>isError = false\<close> and \<open>data\<close> the payload itself: nothing
  of the previous \<open>data\<close> is left in it.
\<close>

theorem fetch_success_replaces_data:
  "storiesReducer state \<lparr>type = ''STORIES_FETCH_SUCCESS'', payload = p\<rparr>
   = Inr \<lparr>data = p, isLoading = False, isError = False\<rparr>"
  by (cases state) (simp add: storiesReducer_def)

theorem fetch_success_replaces_data_witness:
  "storiesReducer \<lparr>data = Array [story1, story2], isLoading = True, isError = False\<rparr>
     \<lparr>type = ''STORIES_FETCH_SUCCESS'', payload = Array [story3]\<rparr>
   = Inr \<lparr>data = Array [story3], isLoading = False, isError = False\<rparr>"
  using fetch_success_replaces_data
    [of "\<lparr>data = Array [story1, story2], isLoading = True, isError = False\<rparr>" "Array [story3]"]
  by simp

text \<open>
  C4. From every state, \<open>STORIES_FETCH_INIT\<close> returns the state with the same \<open>data\<close>,
  \<open>isLoading = true\<close> and \<open>isError = false\<close>, and \<open>STORIES_FETCH_FAILURE\<close> returns the
  state with the same \<open>data\<close>, \<open>isLoading = false\<close> and \<open>isError = true\<close>; so the data of
  an earlier successful fetch is still there after a failed one.
\<close>

theorem fetch_init_failure_keep_data:
  "storiesReducer state \<lparr>type = ''STORIES_FETCH_INIT'', payload = p\<rparr>
     = Inr \<lparr>data = data state, isLoading = True, isError = False\<rparr>
   \<and> storiesReducer state \<lparr>type = ''STORIES_FETCH_FAILURE'', payload = p\<rparr>
     = Inr \<lparr>data = data state, isLoading = False, isError = True\<rparr>"
  by (cases state) (simp add: storiesReducer_def)

theorem fetch_init_failure_keep_data_witness:
  "dispatchAll initialStories
     (map action_of [FETCH_INIT, FETCH_SUCCESS [story1, story2], FETCH_INIT, FETCH_FAILURE])
   = Inr \<lparr>data = Array [story1, story2], isLoading = False, isError = True\<rparr>"
  using fetch_init_failure_keep_data
    [of "\<lparr>data = Array [story1, story2], isLoading = True, isError = False\<rparr>" Undefined]
  by (simp add: initialStories_def storiesReducer_def)

text \<open>
  C7. An action whose \<open>type\<close> is none of the four strings of the \<open>switch\<close> makes the
  reducer throw \<open>Error\<close>: no state is returned.
\<close>

theorem unknown_action_throws:
  assumes "type action \<noteq> ''STORIES_FETCH_INIT''"
    and "type action \<noteq> ''STORIES_FETCH_SUCCESS''"
    and "type action \<noteq> ''STORIES_FETCH_FAILURE''"
    and "type action \<noteq> ''REMOVE_STORY''"
  shows "storiesReducer state action = Inl Error"
  using assms by (simp add: storiesReducer_def)

theorem unknown_action_throws_witness:
  "storiesReducer initialStories \<lparr>type = ''STORIES_FETCH_RETRY'', payload = Undefined\<rparr> = Inl Error"
  using unknown_action_throws [of "\<lparr>type = ''STORIES_FETCH_RETRY'', payload = Undefined\<rparr>" initialStories]
  by simp

section \<open>Properties of the fetch handler\<close>

text \<open>The first dispatch cannot throw: while \<open>isLoading\<close>, \<open>List\<close> is not rendered.\<close>

lemma dispatchStories_init:
  "dispatchStories r state \<lparr>type = ''STORIES_FETCH_INIT'', payload = p\<rparr> = Inr ()"
  by (cases r) (simp_all add: dispatchStories_def storiesReducer_def App_render_def)

text \<open>The dispatch of a fetched payload throws exactly in a legacy root, when the
  payload is not an array.\<close>

lemma dispatchStories_success:
  "dispatchStories r state \<lparr>type = ''STORIES_FETCH_SUCCESS'', payload = h\<rparr> =
   (if r = Legacy \<and> \<not> isArray h then Inl TypeError else Inr ())"
  by (cases r)
    (simp_all add: dispatchStories_def storiesReducer_def App_render_def List_render_def)

text \<open>
  On the application the two roots agree: fetched hits that are an array replace the
  data, and hits that are not an array bring the tree down with the render's error.
\<close>

lemma fetchSettled_array:
  "fetchSettled (Resolved (Result (Some (Array hits)))) app =
   Inr (app\<lparr>stories := \<lparr>data = Array hits, isLoading = False, isError = False\<rparr>\<rparr>)"
  by (cases "stories app")
    (simp add: fetchSettled_def dispatchStories_success storiesReducer_def
      App_render_def List_render_def)

lemma fetchSettled_not_array:
  "\<not> isArray h \<Longrightarrow> fetchSettled (Resolved (Result (Some h))) app = Inl TypeError"
  by (cases "root app")
    (simp_all add: fetchSettled_def dispatchStories_success storiesReducer_def
      App_render_def List_render_def)




section \<open>Properties of the persisted input\<close>

text \<open>The start of a fetch cannot fail: it sets the flags and logs the request.\<close>

lemma fetch_begin_total:
  "performAll (handleFetchStories_begin u) app =
   Inr (app\<lparr>stories := (stories app)\<lparr>isLoading := True, isError := False\<rparr>,
            requests := requests app @ [u]\<rparr>)"
  by (simp add: handleFetchStories_begin_def storiesReducer_def App_render_def)

text \<open>A later render returns the stored value, whatever the storage holds.\<close>

lemma rerender_keeps_value:
  "fst (useSemiPersistentState (Some v) store key initialState) = v"
  by (simp add: useSemiPersistentState_def useState_def)

text \<open>The mounted application, written out.\<close>

lemma App_mount_eq:
  "App_mount r store =
   Inr \<lparr>root = r, searchTerm = js_or (getItem store ''search'') ''React'',
        url = API_ENDPOINT @ js_or (getItem store ''search'') ''React'',
        stories = \<lparr>data = Array [], isLoading = True, isError = False\<rparr>,
        localStorage = setItem store ''search'' (js_or (getItem store ''search'') ''React''),
        requests = [API_ENDPOINT @ js_or (getItem store ''search'') ''React'']\<rparr>"
  by (simp add: App_mount_def useSemiPersistentState_def useState_def Let_def
      fetch_begin_total initialStories_def)

text \<open>
  C6. On the first render the search term is read from storage: with \<open>"Rust"\<close> stored
  under \<open>"search"\<close> the hook returns \<open>"Rust"\<close>, which is not the default, and the
  application mounts with that term; with nothing stored under \<open>"search"\<close> the hook
  returns the default \<open>"React"\<close> and the application mounts with it. The kind of
  root makes no difference.
\<close>

theorem initial_search_term:
  "(getItem store ''search'' = Some ''Rust'' \<longrightarrow>
      fst (useSemiPersistentState None store ''search'' ''React'') = ''Rust''
      \<and> fst (useSemiPersistentState None store ''search'' ''React'') \<noteq> ''React''
      \<and> (\<exists>app. App_mount r store = Inr app \<and> searchTerm app = ''Rust''))
   \<and> (getItem store ''search'' = None \<longrightarrow>
      fst (useSemiPersistentState None store ''search'' ''React'') = ''React''
      \<and> (\<exists>app. App_mount r store = Inr app \<and> searchTerm app = ''React''))"
  by (simp add: useSemiPersistentState_def useState_def js_or_def truthy_def App_mount_def
      fetch_begin_total Let_def)

theorem initial_search_term_witness:
  "fst (useSemiPersistentState None [''search'' \<mapsto> ''Rust''] ''search'' ''React'') = ''Rust''
   \<and> fst (useSemiPersistentState None Map.empty ''search'' ''React'') = ''React''"
  using initial_search_term [of "[''search'' \<mapsto> ''Rust'']"]
    initial_search_term [of Map.empty]
  by (simp add: getItem_def)

text \<open>
  C10. With the empty string stored under \<open>"search"\<close>, the first render returns the
  default \<open>"React"\<close>, not the stored value, since the empty string is falsy; a stored
  value that is not empty is the one returned.
\<close>

theorem empty_stored_term_falls_back:
  "(getItem store ''search'' = Some [] \<longrightarrow>
      fst (useSemiPersistentState None store ''search'' ''React'') = ''React'')
   \<and> (getItem store ''search'' = Some v \<longrightarrow> v \<noteq> [] \<longrightarrow>
      fst (useSemiPersistentState None store ''search'' ''React'') = v)"
  by (simp add: useSemiPersistentState_def useState_def js_or_def truthy_def Let_def)

theorem empty_stored_term_falls_back_witness:
  "fst (useSemiPersistentState None [''search'' \<mapsto> ''''] ''search'' ''React'') = ''React''
   \<and> fst (useSemiPersistentState None [''search'' \<mapsto> ''Vue''] ''search'' ''React'') = ''Vue''"
  using empty_stored_term_falls_back [of "[''search'' \<mapsto> '''']" "''Vue''"]
    empty_stored_term_falls_back [of "[''search'' \<mapsto> ''Vue'']" "''Vue''"]
  by (simp add: getItem_def)

section \<open>Properties of the search form\<close>

lemma perform_url: "perform e app = Inr app' \<Longrightarrow> url app' = url app"
  by (cases e) (auto split: sum.splits)

lemma performAll_url: "performAll es app = Inr app' \<Longrightarrow> url app' = url app"
proof (induction es arbitrary: app)
  case Nil
  then show ?case by simp
next
  case (Cons e es)
  then show ?case
    by (auto split: sum.splits dest: perform_url)
qed

lemma handleSearchSubmit_eq:
  "handleSearchSubmit app =
   (if API_ENDPOINT @ searchTerm app = url app then Inr app
    else Inr (app\<lparr>url := API_ENDPOINT @ searchTerm app,
                  stories := (stories app)\<lparr>isLoading := True, isError := False\<rparr>,
                  requests := requests app @ [API_ENDPOINT @ searchTerm app]\<rparr>))"
  by (simp add: handleSearchSubmit_def Let_def fetch_begin_total)

lemma handleSearchInput_eq:
  "handleSearchInput v app =
   (if v = searchTerm app then app
    else app\<lparr>searchTerm := v, localStorage := (localStorage app)(''search'' \<mapsto> v)\<rparr>)"
  by (simp add: handleSearchInput_def useSemiPersistentState_def useState_def setItem_def)

text \<open>The application never mounts with an empty search term.\<close>

lemma js_or_truthy: "truthy b \<Longrightarrow> truthy (js_or a b)"
  by (simp add: js_or_def split: option.splits)

lemma App_mount_term_not_empty:
  "App_mount r store = Inr app \<Longrightarrow> searchTerm app \<noteq> []"
  using js_or_truthy [of "''React''" "getItem store ''search''"]
  by (auto simp: App_mount_eq truthy_def)

text \<open>
  C8. \<open>handleSearchInput\<close> sets the search term to the typed value and leaves the URL
  as it is; \<open>handleSearchSubmit\<close> always returns, with the URL equal to
  \<open>API_ENDPOINT\<close> followed by the current search term, which it leaves as it is; and
  no event other than a submission changes the URL.
\<close>

theorem url_changes_only_on_submit:
  "url (handleSearchInput v app) = url app
   \<and> searchTerm (handleSearchInput v app) = v
   \<and> (\<exists>app'. handleSearchSubmit app = Inr app'
         \<and> url app' = API_ENDPOINT @ searchTerm app
         \<and> searchTerm app' = searchTerm app)
   \<and> (\<forall>app'. e \<noteq> SearchSubmit \<longrightarrow> step e app = Inr app' \<longrightarrow> url app' = url app)"
proof -
  have "e \<noteq> SearchSubmit \<Longrightarrow> step e app = Inr app' \<Longrightarrow> url app' = url app" for app'
  proof (cases e)
    case (SearchInput w)
    assume "step e app = Inr app'"
    with SearchInput show ?thesis
      by (auto simp: handleSearchInput_eq)
  next
    case (RemoveItem item)
    assume "step e app = Inr app'"
    with RemoveItem show ?thesis
      by (auto simp: handleRemoveStory_def split: sum.splits)
  next
    case (FetchSettled out)
    assume "step e app = Inr app'"
    with FetchSettled show ?thesis
      by (auto simp: fetchSettled_def dest: performAll_url)
  qed simp
  then show ?thesis
    by (auto simp: handleSearchInput_eq handleSearchSubmit_eq)
qed

theorem url_changes_only_on_submit_witness:
  "url (handleSearchInput ''Rust'' app0) = API_ENDPOINT @ ''React''
   \<and> searchTerm (handleSearchInput ''Rust'' app0) = ''Rust''
   \<and> (\<exists>app'. handleSearchSubmit (handleSearchInput ''Rust'' app0) = Inr app'
          \<and> url app' = API_ENDPOINT @ ''Rust'')
   \<and> (\<exists>app'. step (RemoveItem story1) app0 = Inr app' \<and> url app' = API_ENDPOINT @ ''React'')"
proof -
  have r: "step (RemoveItem story1) app0 =
     Inr (app0\<lparr>stories := \<lparr>data = Array [story2], isLoading = False, isError = False\<rparr>\<rparr>)"
    by (simp add: handleRemoveStory_def app0_def storiesReducer_def keep_story_def
        App_render_def List_render_def story1_def story2_def)
  have "RemoveItem story1 \<noteq> SearchSubmit" by simp
  with r url_changes_only_on_submit [of "''Rust''" app0 "RemoveItem story1"]
    url_changes_only_on_submit [of "''Rust''" "handleSearchInput ''Rust'' app0" SearchSubmit]
  show ?thesis
    by (auto simp: app0_def)
qed

text \<open>
  C9. The submit button is disabled exactly when the search term is the empty string.
  With an empty search term a submission through the page therefore changes nothing,
  so no request is sent; with any other search term the button is enabled and the
  submission reaches \<open>handleSearchSubmit\<close>.
\<close>

theorem submit_disabled_iff_empty:
  "(SearchForm_disabled term \<longleftrightarrow> term = [])
   \<and> (searchTerm app = [] \<longrightarrow> formSubmit app = Inr app)
   \<and> (searchTerm app \<noteq> [] \<longrightarrow> formSubmit app = handleSearchSubmit app)"
  by (simp add: SearchForm_disabled_def truthy_def formSubmit_def)

theorem submit_disabled_iff_empty_witness:
  "SearchForm_disabled '''' \<and> \<not> SearchForm_disabled ''Rust''
   \<and> formSubmit (app0\<lparr>searchTerm := ''''\<rparr>) = Inr (app0\<lparr>searchTerm := ''''\<rparr>)
   \<and> formSubmit (handleSearchInput ''Rust'' app0)
     = handleSearchSubmit (handleSearchInput ''Rust'' app0)"
  using submit_disabled_iff_empty [of "''''" "app0\<lparr>searchTerm := ''''\<rparr>"]
    submit_disabled_iff_empty [of "''Rust''" "handleSearchInput ''Rust'' app0"]
  by (simp add: handleSearchInput_eq app0_def)

end
